theory Spec2Isabelle
  imports Complex_Main
begin

section \<open>Kisan Sahay: the check-in risk pipeline\<close>

text \<open>
  A shallow embedding of the risk scoring and alerting code of the backend:
  \<^item> \<^verbatim>\<open>modules/checkin/risk-assessment.ts\<close>: \<open>assessRisk\<close>, \<open>identifyCriticalFactors\<close>,
    \<open>shouldTriggerAlert\<close>, \<open>getAlertSeverity\<close>;
  \<^item> \<^verbatim>\<open>services/ai/sentiment.service.ts\<close>: \<open>analyzeSentiment\<close>, \<open>analyzeRiskFromCheckIn\<close>;
  \<^item> \<^verbatim>\<open>modules/checkin/checkin.service.ts\<close>: \<open>createCheckIn\<close>, \<open>createAlert\<close>,
    \<open>generateResponse\<close>.
\<close>

subsection \<open>JavaScript strings\<close>

text \<open>
  A JavaScript string is a sequence of UTF-16 code units; a code unit is modelled by its
  number. \<open>str\<close> turns an ASCII literal into such a sequence.
\<close>

type_synonym jsstring = "nat list"

definition str :: "string \<Rightarrow> jsstring" where
  "str s = map of_char s"

text \<open>
  \<^verbatim>\<open>String.prototype.toLowerCase\<close>. On a text whose code units are all ASCII or in the
  Devanagari block (\<open>0x900\<close> to \<open>0x97F\<close>, which has no letter case) it turns \<open>A\<close> to \<open>Z\<close>
  into \<open>a\<close> to \<open>z\<close> and leaves every other code unit as it is. On any other text the
  result comes from the Unicode case tables of the engine (the Kelvin sign \<open>0x212A\<close>
  becomes \<open>k\<close>, for one); these tables are not part of the repository, so what they give
  is the parameter \<open>unicodeLower\<close>, and every function below that lowers a text takes it.
  The statements about these functions hold for every \<open>unicodeLower\<close>.
\<close>

definition plainUnit :: "nat \<Rightarrow> bool" where
  "plainUnit c \<longleftrightarrow> c < 128 \<or> (0x900 \<le> c \<and> c \<le> 0x97F)"

definition asciiLower :: "jsstring \<Rightarrow> jsstring" where
  "asciiLower s = map (\<lambda>c. if 65 \<le> c \<and> c \<le> 90 then c + 32 else c) s"

definition toLowerCase :: "(jsstring \<Rightarrow> jsstring) \<Rightarrow> jsstring \<Rightarrow> jsstring" where
  "toLowerCase unicodeLower s = (if list_all plainUnit s then asciiLower s else unicodeLower s)"

text \<open>\<^verbatim>\<open>String.prototype.trim\<close> removes WhiteSpace and LineTerminator code units at both ends.\<close>

definition isWhiteSpace :: "nat \<Rightarrow> bool" where
  "isWhiteSpace c \<longleftrightarrow>
     c \<in> set [0x9, 0xA, 0xB, 0xC, 0xD, 0x20, 0xA0, 0x1680, 0x2028, 0x2029, 0x202F, 0x205F,
              0x3000, 0xFEFF]
     \<or> (0x2000 \<le> c \<and> c \<le> 0x200A)"

definition trim :: "jsstring \<Rightarrow> jsstring" where
  "trim s = rev (dropWhile isWhiteSpace (rev (dropWhile isWhiteSpace s)))"

text \<open>\<^verbatim>\<open>String.prototype.includes\<close>: the argument occurs as a contiguous run of code units.\<close>

fun startsWith :: "jsstring \<Rightarrow> jsstring \<Rightarrow> bool" where
  "startsWith _ [] = True"
| "startsWith [] (_ # _) = False"
| "startsWith (x # xs) (y # ys) = (x = y \<and> startsWith xs ys)"

fun includes_str :: "jsstring \<Rightarrow> jsstring \<Rightarrow> bool" where
  "includes_str [] w = startsWith [] w"
| "includes_str (x # xs) w = (startsWith (x # xs) w \<or> includes_str xs w)"

text \<open>
  A JavaScript number is modelled by the real number it stands for, an integer-valued one
  by an \<open>int\<close>. \<^verbatim>\<open>Math.round\<close> rounds to the nearest integer, a half towards plus
  infinity.
\<close>

definition Math_round :: "real \<Rightarrow> int" where
  "Math_round x = \<lfloor>x + 1 / 2\<rfloor>"

subsection \<open>Property lookup on an object literal\<close>

text \<open>
  \<^verbatim>\<open>obj[key]\<close> on an object literal finds the literal's own properties first and then
  the properties every object inherits from \<^verbatim>\<open>Object.prototype\<close>; any other key gives
  \<^verbatim>\<open>undefined\<close>. The inherited values are functions (and the prototype object itself
  for \<^verbatim>\<open>__proto__\<close>): truthy, and not iterable.
\<close>

definition objectPrototypeKeys :: "jsstring list" where
  "objectPrototypeKeys =
    [str ''constructor'', str ''__defineGetter__'', str ''__defineSetter__'',
     str ''hasOwnProperty'', str ''__lookupGetter__'', str ''__lookupSetter__'',
     str ''isPrototypeOf'', str ''propertyIsEnumerable'', str ''toString'',
     str ''valueOf'', str ''__proto__'', str ''toLocaleString'']"

datatype 'a property = Own 'a | Inherited jsstring | Undefined

definition getProperty :: "(jsstring \<times> 'a) list \<Rightarrow> jsstring \<Rightarrow> 'a property" where
  "getProperty obj key =
     (case map_of obj key of
        Some v \<Rightarrow> Own v
      | None \<Rightarrow> if key \<in> set objectPrototypeKeys then Inherited key else Undefined)"

subsection \<open>Shared types\<close>

datatype CropCondition = Crop_excellent | Crop_good | Crop_moderate | Crop_poor | Crop_destroyed
datatype LoanPressure = Loan_none | Loan_low | Loan_medium | Loan_high | Loan_severe
datatype SleepQuality = Sleep_good | Sleep_fair | Sleep_poor | Sleep_very_poor
datatype FamilySupport = Family_strong | Family_moderate | Family_weak | Family_none

datatype RiskLevel = LOW | MODERATE | HIGH | CRITICAL

text \<open>
  \<open>RiskAssessmentInput\<close> (and \<open>CreateCheckInInput\<close>, which has the same fields). The schema
  of the route makes \<open>hopeLevel\<close> an integer; the optional \<^verbatim>\<open>notes\<close> is the field \<open>notes'\<close>.
\<close>

record RiskAssessmentInput =
  cropCondition :: CropCondition
  loanPressure :: LoanPressure
  sleepQuality :: SleepQuality
  familySupport :: FamilySupport
  hopeLevel :: int
  notes' :: "jsstring option"

record Factors =
  crop :: int
  loan :: int
  sleep :: int
  family :: int
  hope :: int

record RiskAssessmentResult =
  riskScore :: int
  riskLevel :: RiskLevel
  criticalFactors :: "jsstring list"
  factors :: Factors

subsection \<open>risk-assessment.ts\<close>

text \<open>
  \<open>RISK_WEIGHTS\<close>. The four tables are indexed by values of their key types, so the
  fallback \<^verbatim>\<open>|| 0\<close> of \<open>assessRisk\<close> only ever replaces a weight 0 by 0.
\<close>

fun RISK_WEIGHTS_crop :: "CropCondition \<Rightarrow> int" where
  "RISK_WEIGHTS_crop Crop_excellent = 0"
| "RISK_WEIGHTS_crop Crop_good = 1"
| "RISK_WEIGHTS_crop Crop_moderate = 2"
| "RISK_WEIGHTS_crop Crop_poor = 3"
| "RISK_WEIGHTS_crop Crop_destroyed = 5"

fun RISK_WEIGHTS_loan :: "LoanPressure \<Rightarrow> int" where
  "RISK_WEIGHTS_loan Loan_none = 0"
| "RISK_WEIGHTS_loan Loan_low = 1"
| "RISK_WEIGHTS_loan Loan_medium = 2"
| "RISK_WEIGHTS_loan Loan_high = 4"
| "RISK_WEIGHTS_loan Loan_severe = 5"

fun RISK_WEIGHTS_sleep :: "SleepQuality \<Rightarrow> int" where
  "RISK_WEIGHTS_sleep Sleep_good = 0"
| "RISK_WEIGHTS_sleep Sleep_fair = 1"
| "RISK_WEIGHTS_sleep Sleep_poor = 3"
| "RISK_WEIGHTS_sleep Sleep_very_poor = 5"

fun RISK_WEIGHTS_family :: "FamilySupport \<Rightarrow> int" where
  "RISK_WEIGHTS_family Family_strong = 0"
| "RISK_WEIGHTS_family Family_moderate = 1"
| "RISK_WEIGHTS_family Family_weak = 3"
| "RISK_WEIGHTS_family Family_none = 5"

text \<open>\<open>RISK_LEVELS\<close>, in the order of the object literal, which \<^verbatim>\<open>Object.values\<close> keeps.\<close>

record Band =
  band_min :: int
  band_max :: int
  band_label :: RiskLevel

definition RISK_LEVELS :: "Band list" where
  "RISK_LEVELS =
    [\<lparr>band_min = 0, band_max = 6, band_label = LOW\<rparr>,
     \<lparr>band_min = 7, band_max = 12, band_label = MODERATE\<rparr>,
     \<lparr>band_min = 13, band_max = 18, band_label = HIGH\<rparr>,
     \<lparr>band_min = 19, band_max = 30, band_label = CRITICAL\<rparr>]"

definition inBand :: "int \<Rightarrow> Band \<Rightarrow> bool" where
  "inBand score level \<longleftrightarrow> score \<ge> band_min level \<and> score \<le> band_max level"

text \<open>
  The loop of \<open>assessRisk\<close> over the bands: the level starts as the given one and takes the
  label of the first band that holds the score, where the loop breaks.
\<close>

fun findLevel :: "RiskLevel \<Rightarrow> Band list \<Rightarrow> int \<Rightarrow> RiskLevel" where
  "findLevel current [] score = current"
| "findLevel current (level # levels) score =
     (if inBand score level then band_label level else findLevel current levels score)"

definition hopeFactor :: "int \<Rightarrow> int" where
  "hopeFactor h = max 0 (5 - \<lfloor>real_of_int h / 2\<rfloor>)"

definition identifyCriticalFactors :: "RiskAssessmentInput \<Rightarrow> jsstring list" where
  "identifyCriticalFactors input =
     (if cropCondition input = Crop_poor \<or> cropCondition input = Crop_destroyed
      then [str ''crop_poor''] else [])
     @ (if loanPressure input = Loan_high \<or> loanPressure input = Loan_severe
        then [str ''loan_high''] else [])
     @ (if sleepQuality input = Sleep_poor \<or> sleepQuality input = Sleep_very_poor
        then [str ''sleep_poor''] else [])
     @ (if familySupport input = Family_weak \<or> familySupport input = Family_none
        then [str ''family_weak''] else [])
     @ (if hopeLevel input \<le> 4 then [str ''hope_low''] else [])"

definition assessRisk :: "RiskAssessmentInput \<Rightarrow> RiskAssessmentResult" where
  "assessRisk input =
     (let fs = \<lparr>crop = RISK_WEIGHTS_crop (cropCondition input),
                loan = RISK_WEIGHTS_loan (loanPressure input),
                sleep = RISK_WEIGHTS_sleep (sleepQuality input),
                family = RISK_WEIGHTS_family (familySupport input),
                hope = hopeFactor (hopeLevel input)\<rparr>;
          score = foldl (+) 0 [crop fs, loan fs, sleep fs, family fs, hope fs]
      in \<lparr>riskScore = score,
          riskLevel = findLevel LOW RISK_LEVELS score,
          criticalFactors = identifyCriticalFactors input,
          factors = fs\<rparr>)"

datatype Severity = Severity_high | Severity_critical

definition shouldTriggerAlert :: "RiskLevel \<Rightarrow> bool" where
  "shouldTriggerAlert level \<longleftrightarrow> level = HIGH \<or> level = CRITICAL"

definition getAlertSeverity :: "RiskLevel \<Rightarrow> Severity option" where
  "getAlertSeverity level =
     (if level = CRITICAL then Some Severity_critical
      else if level = HIGH then Some Severity_high
      else None)"

subsection \<open>sentiment.service.ts: the keyword tables\<close>

text \<open>
  The Marathi and Hindi words are written as their UTF-16 code units (all in the
  Devanagari block, \<open>0x900\<close> to \<open>0x97F\<close>, and the space \<open>0x020\<close>), word for word in the
  order of the source.
\<close>

definition NEGATIVE_KEYWORDS_mr :: "jsstring list" where
  "NEGATIVE_KEYWORDS_mr =
    [[0x924, 0x94D, 0x930, 0x93E, 0x938],
     [0x926, 0x941, 0x903, 0x916],
     [0x928, 0x93F, 0x930, 0x93E, 0x936, 0x93E],
     [0x925, 0x915, 0x935, 0x93E],
     [0x91A, 0x93F, 0x902, 0x924, 0x93E],
     [0x92D, 0x940, 0x924, 0x940],
     [0x905, 0x92A, 0x92F, 0x936],
     [0x915, 0x930, 0x94D, 0x91C],
     [0x928, 0x941, 0x915, 0x938, 0x93E, 0x928],
     [0x92E, 0x943, 0x924, 0x94D, 0x92F, 0x942],
     [0x906, 0x924, 0x94D, 0x92E, 0x939, 0x924, 0x94D, 0x92F, 0x93E],
     [0x938, 0x902, 0x92A, 0x935, 0x923, 0x947],
     [0x925, 0x93E, 0x902, 0x92C, 0x935, 0x923, 0x947],
     [0x909, 0x92A, 0x93E, 0x92F, 0x020, 0x928, 0x93E, 0x939, 0x940],
     [0x91D, 0x94B, 0x92A, 0x020, 0x928, 0x93E, 0x939, 0x940],
     [0x92D, 0x942, 0x915, 0x020, 0x928, 0x93E, 0x939, 0x940],
     [0x90F, 0x915, 0x91F, 0x947],
     [0x915, 0x94B, 0x923, 0x940, 0x020, 0x928, 0x93E, 0x939, 0x940],
     [0x939, 0x930, 0x932, 0x947]]"

definition NEGATIVE_KEYWORDS_hi :: "jsstring list" where
  "NEGATIVE_KEYWORDS_hi =
    [[0x924, 0x928, 0x93E, 0x935],
     [0x926, 0x941, 0x916],
     [0x928, 0x93F, 0x930, 0x93E, 0x936, 0x93E],
     [0x925, 0x915, 0x93E, 0x928],
     [0x91A, 0x93F, 0x902, 0x924, 0x93E],
     [0x921, 0x930],
     [0x905, 0x938, 0x92B, 0x932, 0x924, 0x93E],
     [0x915, 0x930, 0x94D, 0x91C],
     [0x928, 0x941, 0x915, 0x938, 0x93E, 0x928],
     [0x92E, 0x94C, 0x924],
     [0x906, 0x924, 0x94D, 0x92E, 0x939, 0x924, 0x94D, 0x92F, 0x93E],
     [0x916, 0x924, 0x94D, 0x92E],
     [0x930, 0x94B, 0x915, 0x928, 0x93E],
     [0x915, 0x94B, 0x908, 0x020, 0x909, 0x92A, 0x93E, 0x92F, 0x020, 0x928, 0x939, 0x940, 0x902],
     [0x928, 0x940, 0x902, 0x926, 0x020, 0x928, 0x939, 0x940, 0x902],
     [0x92D, 0x942, 0x916, 0x020, 0x928, 0x939, 0x940, 0x902],
     [0x905, 0x915, 0x947, 0x932, 0x93E],
     [0x915, 0x94B, 0x908, 0x020, 0x928, 0x939, 0x940, 0x902],
     [0x939, 0x93E, 0x930, 0x020, 0x917, 0x92F, 0x93E]]"

definition NEGATIVE_KEYWORDS_en :: "jsstring list" where
  "NEGATIVE_KEYWORDS_en =
    [str ''stress'',
     str ''sadness'',
     str ''hopeless'',
     str ''tired'',
     str ''anxiety'',
     str ''fear'',
     str ''failure'',
     str ''debt'',
     str ''loss'',
     str ''death'',
     str ''suicide'',
     str ''end'',
     str ''stop'',
     str ''no way'',
     str ''no solution'',
     str ''cannot sleep'',
     str ''no appetite'',
     str ''alone'',
     str ''nobody'',
     str ''lost'']"

definition CRITICAL_INDICATORS_mr :: "jsstring list" where
  "CRITICAL_INDICATORS_mr =
    [[0x906, 0x924, 0x94D, 0x92E, 0x939, 0x924, 0x94D, 0x92F, 0x93E],
     [0x92E, 0x930, 0x93E, 0x92F, 0x91A, 0x947],
     [0x938, 0x902, 0x92A, 0x935, 0x93E, 0x92F, 0x91A, 0x947],
     [0x91C, 0x917, 0x93E, 0x92F, 0x91A, 0x947, 0x020, 0x928, 0x93E, 0x939, 0x940],
     [0x92B, 0x93E, 0x938],
     [0x935, 0x93F, 0x937]]"

definition CRITICAL_INDICATORS_hi :: "jsstring list" where
  "CRITICAL_INDICATORS_hi =
    [[0x906, 0x924, 0x94D, 0x92E, 0x939, 0x924, 0x94D, 0x92F, 0x93E],
     [0x92E, 0x930, 0x928, 0x93E],
     [0x916, 0x924, 0x94D, 0x92E, 0x020, 0x915, 0x930, 0x928, 0x93E],
     [0x91C, 0x940, 0x928, 0x93E, 0x020, 0x928, 0x939, 0x940, 0x902],
     [0x92B, 0x93E, 0x902, 0x938, 0x940],
     [0x91C, 0x939, 0x930]]"

definition CRITICAL_INDICATORS_en :: "jsstring list" where
  "CRITICAL_INDICATORS_en =
    [str ''suicide'',
     str ''kill myself'',
     str ''end it'',
     str ''dont want to live'',
     str ''hanging'',
     str ''poison'']"

definition POSITIVE_KEYWORDS_mr :: "jsstring list" where
  "POSITIVE_KEYWORDS_mr =
    [[0x906, 0x936, 0x93E],
     [0x906, 0x928, 0x902, 0x926],
     [0x936, 0x93E, 0x902, 0x924, 0x940],
     [0x92E, 0x926, 0x924],
     [0x915, 0x941, 0x91F, 0x941, 0x902, 0x92C],
     [0x92E, 0x93F, 0x924, 0x94D, 0x930],
     [0x92F, 0x936],
     [0x92A, 0x94D, 0x930, 0x917, 0x924, 0x940]]"

definition POSITIVE_KEYWORDS_hi :: "jsstring list" where
  "POSITIVE_KEYWORDS_hi =
    [[0x906, 0x936, 0x93E],
     [0x916, 0x941, 0x936, 0x940],
     [0x936, 0x93E, 0x902, 0x924, 0x93F],
     [0x92E, 0x926, 0x926],
     [0x92A, 0x930, 0x93F, 0x935, 0x93E, 0x930],
     [0x926, 0x94B, 0x938, 0x94D, 0x924],
     [0x938, 0x92B, 0x932, 0x924, 0x93E],
     [0x92A, 0x94D, 0x930, 0x917, 0x924, 0x93F]]"

definition POSITIVE_KEYWORDS_en :: "jsstring list" where
  "POSITIVE_KEYWORDS_en =
    [str ''hope'',
     str ''happy'',
     str ''peace'',
     str ''help'',
     str ''family'',
     str ''friend'',
     str ''success'',
     str ''progress'']"

definition NEGATIVE_KEYWORDS :: "(jsstring \<times> jsstring list) list" where
  "NEGATIVE_KEYWORDS =
    [(str ''mr'', NEGATIVE_KEYWORDS_mr), (str ''hi'', NEGATIVE_KEYWORDS_hi),
     (str ''en'', NEGATIVE_KEYWORDS_en)]"

definition CRITICAL_INDICATORS :: "(jsstring \<times> jsstring list) list" where
  "CRITICAL_INDICATORS =
    [(str ''mr'', CRITICAL_INDICATORS_mr), (str ''hi'', CRITICAL_INDICATORS_hi),
     (str ''en'', CRITICAL_INDICATORS_en)]"

definition POSITIVE_KEYWORDS :: "(jsstring \<times> jsstring list) list" where
  "POSITIVE_KEYWORDS =
    [(str ''mr'', POSITIVE_KEYWORDS_mr), (str ''hi'', POSITIVE_KEYWORDS_hi),
     (str ''en'', POSITIVE_KEYWORDS_en)]"

subsection \<open>sentiment.service.ts: analyzeSentiment\<close>

datatype error = TypeError | RecordNotFound | Error string

datatype Label = Negative | Neutral | Positive

record SentimentResult =
  score :: real
  label :: Label
  confidence :: real
  keywords_found :: "jsstring list"
  riskIndicators :: "jsstring list"

text \<open>
  \<^verbatim>\<open>TABLE[lang] || TABLE.mr\<close>, followed by the \<^verbatim>\<open>for ... of\<close> loop over the value. A word
  list is truthy and is iterated; \<^verbatim>\<open>undefined\<close> falls back to the Marathi list; an
  inherited property is truthy and not iterable, so the loop throws a TypeError.
\<close>

definition wordsOf :: "(jsstring \<times> jsstring list) list \<Rightarrow> jsstring \<Rightarrow> error + jsstring list" where
  "wordsOf table lang =
     (case getProperty table lang of
        Own ws \<Rightarrow> Inr ws
      | Inherited _ \<Rightarrow> Inl TypeError
      | Undefined \<Rightarrow>
          (case getProperty table (str ''mr'') of
             Own ws \<Rightarrow> Inr ws
           | _ \<Rightarrow> Inl TypeError))"

text \<open>Each of the three loops keeps, in table order, the words that the lowered text includes.\<close>

definition foundWords ::
  "(jsstring \<Rightarrow> jsstring) \<Rightarrow> jsstring \<Rightarrow> jsstring list \<Rightarrow> jsstring list" where
  "foundWords unicodeLower lowerText ws =
     filter (\<lambda>word. includes_str lowerText (toLowerCase unicodeLower word)) ws"

text \<open>Lines 111 to 137 of \<open>analyzeSentiment\<close>: score, label, confidence and the result.\<close>

definition sentimentOf :: "jsstring list \<Rightarrow> jsstring list \<Rightarrow> jsstring list \<Rightarrow> SentimentResult" where
  "sentimentOf foundCritical foundNegative foundPositive =
     (let totalWords = length foundNegative + length foundPositive + length foundCritical;
          sc = (if length foundCritical > 0 then - 1
                else if totalWords > 0
                  then (real (length foundPositive) + real (length foundNegative) * (- 1))
                         / real totalWords
                else 0);
          lab = (if sc < - 0.3 then Negative else if sc > 0.3 then Positive else Neutral);
          conf = min 1 ((real totalWords / 5) * 0.8 + 0.2)
      in \<lparr>score = real_of_int (Math_round (sc * 100)) / 100,
          label = lab,
          confidence = real_of_int (Math_round (conf * 100)) / 100,
          keywords_found = foundPositive @ foundNegative,
          riskIndicators = foundCritical\<rparr>)"

definition analyzeSentiment ::
  "(jsstring \<Rightarrow> jsstring) \<Rightarrow> jsstring \<Rightarrow> jsstring \<Rightarrow> error + SentimentResult" where
  "analyzeSentiment unicodeLower text language =
     (if text = [] \<or> length (trim text) = 0
      then Inr \<lparr>score = 0, label = Neutral, confidence = 1, keywords_found = [],
                riskIndicators = []\<rparr>
      else
        let lang = (if language = [] then str ''mr'' else language);
            lowerText = toLowerCase unicodeLower text
        in case wordsOf CRITICAL_INDICATORS lang of
             Inl e \<Rightarrow> Inl e
           | Inr criticalWords \<Rightarrow>
               (case wordsOf NEGATIVE_KEYWORDS lang of
                  Inl e \<Rightarrow> Inl e
                | Inr negativeWords \<Rightarrow>
                    (case wordsOf POSITIVE_KEYWORDS lang of
                       Inl e \<Rightarrow> Inl e
                     | Inr positiveWords \<Rightarrow>
                         Inr (sentimentOf (foundWords unicodeLower lowerText criticalWords)
                                (foundWords unicodeLower lowerText negativeWords)
                                (foundWords unicodeLower lowerText positiveWords)))))"

subsection \<open>sentiment.service.ts: analyzeRiskFromCheckIn\<close>

record AiAnalysis =
  additionalRiskScore :: int
  indicators :: "jsstring list"

text \<open>
  The block that analyses the notes (lines 152 to 168): what it adds to \<open>additionalScore\<close>
  and what it pushes on \<open>indicators\<close>.
\<close>

definition notesRisk :: "SentimentResult \<Rightarrow> real \<times> jsstring list" where
  "notesRisk sentiment =
     (let crisis = (length (riskIndicators sentiment) > 0)
      in ((if crisis then 30 else 0)
            + (if label sentiment = Negative then 10 * \<bar>score sentiment\<bar> else 0),
          (if crisis then [str ''crisis_keywords_detected''] else [])
            @ riskIndicators sentiment))"

definition analyzeRiskFromCheckIn ::
  "(jsstring \<Rightarrow> jsstring) \<Rightarrow> int \<Rightarrow> jsstring option \<Rightarrow> jsstring \<Rightarrow> error + AiAnalysis" where
  "analyzeRiskFromCheckIn unicodeLower hopeLvl notes language =
     (case (case notes of
              None \<Rightarrow> Inr (0, [])
            | Some n \<Rightarrow>
                if n \<noteq> [] \<and> length (trim n) > 0
                then map_sum id notesRisk (analyzeSentiment unicodeLower n language)
                else Inr (0, [])) of
        Inl e \<Rightarrow> Inl e
      | Inr (additionalScore, inds) \<Rightarrow>
          Inr \<lparr>additionalRiskScore =
                  Math_round (additionalScore + (if hopeLvl \<le> 2 then 15 else 0)),
               indicators = inds @ (if hopeLvl \<le> 2 then [str ''very_low_hope''] else [])\<rparr>)"

subsection \<open>checkin.service.ts: the response\<close>

text \<open>
  The entries of the tables \<open>MESSAGES\<close> and \<open>SUGGESTIONS\<close> are fixed Marathi texts; an entry
  is modelled by its key. Besides its seven own entries, a lookup in \<open>SUGGESTIONS\<close> can
  return a property inherited from \<^verbatim>\<open>Object.prototype\<close>.
\<close>

datatype Message = MESSAGES RiskLevel

datatype Suggestion =
    Suggestion_crop_poor | Suggestion_loan_high | Suggestion_sleep_poor
  | Suggestion_family_weak | Suggestion_hope_low | Suggestion_agriculture
  | Suggestion_government | Prototype_member jsstring

definition SUGGESTIONS :: "(jsstring \<times> Suggestion) list" where
  "SUGGESTIONS =
    [(str ''crop_poor'', Suggestion_crop_poor),
     (str ''loan_high'', Suggestion_loan_high),
     (str ''sleep_poor'', Suggestion_sleep_poor),
     (str ''family_weak'', Suggestion_family_weak),
     (str ''hope_low'', Suggestion_hope_low),
     (str ''agriculture'', Suggestion_agriculture),
     (str ''government'', Suggestion_government)]"

record CheckInResponse =
  message :: Message
  suggestions :: "Suggestion list"
  showEmergency :: bool

text \<open>The loop of \<open>generateResponse\<close> over the critical factors, pushing on \<open>suggestions\<close>.\<close>

fun pushSuggestions :: "Suggestion list \<Rightarrow> jsstring list \<Rightarrow> Suggestion list" where
  "pushSuggestions acc [] = acc"
| "pushSuggestions acc (factor # rest) =
     pushSuggestions
       (case getProperty SUGGESTIONS factor of
          Own suggestion \<Rightarrow> acc @ [suggestion]
        | Inherited key \<Rightarrow> acc @ [Prototype_member key]
        | Undefined \<Rightarrow> acc)
       rest"

definition generateResponse :: "RiskLevel \<Rightarrow> jsstring list \<Rightarrow> CheckInResponse" where
  "generateResponse level factorTags =
     (let s0 = pushSuggestions [] factorTags;
          s1 = (if length s0 < 2 then s0 @ [Suggestion_agriculture] else s0);
          s2 = (if level \<noteq> LOW \<and> length s1 < 3 then s1 @ [Suggestion_government] else s1)
      in \<lparr>message = MESSAGES level,
          suggestions = take 4 s2,
          showEmergency = (level = HIGH \<or> level = CRITICAL)\<rparr>)"

subsection \<open>checkin.service.ts: combining the two assessments\<close>

text \<open>
  Lines 116 to 132 of \<open>createCheckIn\<close>. \<open>escalate\<close> is the three consecutive \<^verbatim>\<open>if\<close>
  statements of lines 123 to 125, \<open>recalculate\<close> the chain of lines 129 to 132. The level
  between the two is kept as \<open>intermediateRiskLevel\<close>.
\<close>

definition escalate :: "RiskLevel \<Rightarrow> RiskLevel" where
  "escalate level0 =
     (let level1 = (if level0 = LOW then MODERATE else level0);
          level2 = (if level1 = MODERATE then HIGH else level1);
          level3 = (if level2 = HIGH then CRITICAL else level2)
      in level3)"

definition recalculate :: "int \<Rightarrow> RiskLevel" where
  "recalculate finalScore =
     (if finalScore \<ge> 80 then CRITICAL
      else if finalScore \<ge> 60 then HIGH
      else if finalScore \<ge> 40 then MODERATE
      else LOW)"

record FinalAssessment =
  finalRiskScore :: int
  intermediateRiskLevel :: RiskLevel
  finalRiskLevel :: RiskLevel
  allCriticalFactors :: "jsstring list"

definition combine :: "RiskAssessmentResult \<Rightarrow> AiAnalysis \<Rightarrow> FinalAssessment" where
  "combine assessment aiAnalysis =
     (let score0 = riskScore assessment + additionalRiskScore aiAnalysis;
          level0 = riskLevel assessment;
          crisis = (str ''crisis_keywords_detected'' \<in> set (indicators aiAnalysis));
          score1 = (if crisis then min 100 (score0 + 20) else score0);
          level1 = (if crisis then escalate level0 else level0)
      in \<lparr>finalRiskScore = score1,
          intermediateRiskLevel = level1,
          finalRiskLevel = recalculate score1,
          allCriticalFactors = criticalFactors assessment @ indicators aiAnalysis\<rparr>)"

subsection \<open>checkin.service.ts: the database and createCheckIn\<close>

text \<open>
  The store holds the row of the farmer who submits (the route runs behind the
  authentication middleware, which has loaded that row), the check-in rows and the alert
  rows. A check-in's id is its position in \<open>checkIns\<close>. \<open>row_criticalFactors\<close> is the text
  \<^verbatim>\<open>JSON.stringify\<close> gives for a list of strings, kept as that list under the constructor
  \<open>JSON_stringify\<close>. \<open>row_counselorNotified\<close> is \<open>None\<close> while only the column's default has
  been stored. The time stamp \<open>lastActiveAt\<close> is left out.
\<close>

datatype FarmerStatus = active | inactive | critical_watch

record Farmer =
  preferredLang :: jsstring
  counselorId :: "jsstring option"
  status :: FarmerStatus

datatype Json = JSON_stringify "jsstring list"

record CheckIn =
  row_input :: RiskAssessmentInput
  row_riskScore :: int
  row_riskLevel :: RiskLevel
  row_criticalFactors :: Json
  row_alertTriggered :: bool
  row_counselorNotified :: "bool option"

record Alert =
  alert_checkInId :: nat
  alert_severity :: Severity
  alert_assignedToId :: "jsstring option"

record Db =
  farmer :: Farmer
  checkIns :: "CheckIn list"
  alerts :: "Alert list"

definition createAlert :: "Db \<Rightarrow> nat \<Rightarrow> RiskLevel \<Rightarrow> Db \<times> (error + Alert)" where
  "createAlert db checkInId level =
     (case getAlertSeverity level of
        None \<Rightarrow> (db, Inl (Error ''Cannot create alert for non-high/critical risk level''))
      | Some severity \<Rightarrow>
          let alert = \<lparr>alert_checkInId = checkInId, alert_severity = severity,
                       alert_assignedToId = counselorId (farmer db)\<rparr>;
              db1 = db\<lparr>alerts := alerts db @ [alert]\<rparr>
          in if checkInId < length (checkIns db1)
             then (db1\<lparr>checkIns := (checkIns db1)
                        [checkInId := (checkIns db1 ! checkInId)
                           \<lparr>row_alertTriggered := True,
                            row_counselorNotified :=
                              Some (case counselorId (farmer db) of
                                      None \<Rightarrow> False
                                    | Some c \<Rightarrow> c \<noteq> [])\<rparr>]\<rparr>,
                   Inr alert)
             else (db1, Inl RecordNotFound))"

definition createCheckIn ::
  "(jsstring \<Rightarrow> jsstring) \<Rightarrow> Db \<Rightarrow> RiskAssessmentInput
     \<Rightarrow> Db \<times> (error + CheckIn \<times> CheckInResponse)" where
  "createCheckIn unicodeLower db input =
     (let assessment = assessRisk input;
          lang = (if preferredLang (farmer db) = [] then str ''mr''
                  else preferredLang (farmer db))
      in case analyzeRiskFromCheckIn unicodeLower (hopeLevel input) (notes' input) lang of
           Inl e \<Rightarrow> (db, Inl e)
         | Inr aiAnalysis \<Rightarrow>
             let final = combine assessment aiAnalysis;
                 checkIn = \<lparr>row_input = input,
                            row_riskScore = finalRiskScore final,
                            row_riskLevel = finalRiskLevel final,
                            row_criticalFactors = JSON_stringify (allCriticalFactors final),
                            row_alertTriggered = shouldTriggerAlert (finalRiskLevel final),
                            row_counselorNotified = None\<rparr>;
                 checkInId = length (checkIns db);
                 db1 = db\<lparr>checkIns := checkIns db @ [checkIn]\<rparr>;
                 (db2, alerted) =
                    (if shouldTriggerAlert (finalRiskLevel final)
                     then apsnd (map_sum id Some)
                            (createAlert db1 checkInId (finalRiskLevel final))
                     else (db1, Inr None))
             in case alerted of
                  Inl e \<Rightarrow> (db2, Inl e)
                | Inr _ \<Rightarrow>
                    let db3 = (if finalRiskLevel final = CRITICAL
                               then db2\<lparr>farmer := (farmer db2)\<lparr>status := critical_watch\<rparr>\<rparr>
                               else db2)
                    in (db3, Inr (checkIn,
                                  generateResponse (finalRiskLevel final)
                                    (allCriticalFactors final))))"

subsection \<open>Notions used in the statements\<close>

text \<open>The order of the four levels, from the least to the most severe.\<close>

fun levelRank :: "RiskLevel \<Rightarrow> nat" where
  "levelRank LOW = 0"
| "levelRank MODERATE = 1"
| "levelRank HIGH = 2"
| "levelRank CRITICAL = 3"

text \<open>What one critical factor contributes to the suggestions: one entry or none.\<close>

definition suggestionsFor :: "jsstring \<Rightarrow> Suggestion list" where
  "suggestionsFor factor =
     (case getProperty SUGGESTIONS factor of
        Own suggestion \<Rightarrow> [suggestion]
      | Inherited key \<Rightarrow> [Prototype_member key]
      | Undefined \<Rightarrow> [])"

text \<open>The language \<open>createCheckIn\<close> passes on: \<^verbatim>\<open>farmer?.preferredLang || 'mr'\<close>.\<close>

definition effectiveLang :: "Db \<Rightarrow> jsstring" where
  "effectiveLang db =
     (if preferredLang (farmer db) = [] then str ''mr'' else preferredLang (farmer db))"

text \<open>
  The check-in row that a call of \<open>createCheckIn\<close> leaves in the store: the row at the
  position the call has appended, if it has appended one.
\<close>

definition persisted ::
  "(jsstring \<Rightarrow> jsstring) \<Rightarrow> Db \<Rightarrow> RiskAssessmentInput \<Rightarrow> CheckIn option" where
  "persisted unicodeLower db input =
     (let db' = fst (createCheckIn unicodeLower db input)
      in if length (checkIns db) < length (checkIns db')
         then Some (checkIns db' ! length (checkIns db)) else None)"

text \<open>Concrete inputs: the worst answers with no notes, and a store with one farmer.\<close>

definition example_worst :: RiskAssessmentInput where
  "example_worst =
     \<lparr>cropCondition = Crop_destroyed, loanPressure = Loan_severe,
      sleepQuality = Sleep_very_poor, familySupport = Family_none, hopeLevel = 1,
      notes' = None\<rparr>"

definition example_db :: Db where
  "example_db =
     \<lparr>farmer = \<lparr>preferredLang = str ''en'', counselorId = None, status = active\<rparr>,
      checkIns = [], alerts = []\<rparr>"

text \<open>
  The best answers with the note \<^verbatim>\<open>poison\<close>, at hope level 10 and at hope level 8, and a
  structured assessment with score 0.
\<close>

definition example_calm :: RiskAssessmentInput where
  "example_calm =
     \<lparr>cropCondition = Crop_excellent, loanPressure = Loan_none,
      sleepQuality = Sleep_good, familySupport = Family_strong, hopeLevel = 10,
      notes' = Some (str ''poison'')\<rparr>"

definition example_hope8 :: RiskAssessmentInput where
  "example_hope8 =
     \<lparr>cropCondition = Crop_excellent, loanPressure = Loan_none,
      sleepQuality = Sleep_good, familySupport = Family_strong, hopeLevel = 8,
      notes' = Some (str ''poison'')\<rparr>"

text \<open>
  A text outside ASCII: \<^verbatim>\<open>poison Kill myself\<close>, with the Kelvin sign for the letter K,
  which the engine lowers to \<^verbatim>\<open>poison kill myself\<close>; \<open>kelvinLower\<close> is a lowering that
  does so. \<open>asciiLower\<close> and \<open>kelvinLower\<close> are the values the concrete statements give to
  the parameter \<open>unicodeLower\<close>.
\<close>

definition kelvinLower :: "jsstring \<Rightarrow> jsstring" where
  "kelvinLower s = map (\<lambda>c. if c = 0x212A then 0x6B else c) (asciiLower s)"

definition example_kelvin :: RiskAssessmentInput where
  "example_kelvin =
     \<lparr>cropCondition = Crop_excellent, loanPressure = Loan_none,
      sleepQuality = Sleep_good, familySupport = Family_strong, hopeLevel = 10,
      notes' = Some (str ''poison '' @ [0x212A] @ str ''ill myself'')\<rparr>"

definition example_structured :: RiskAssessmentResult where
  "example_structured =
     \<lparr>riskScore = 0, riskLevel = LOW, criticalFactors = [],
      factors = \<lparr>crop = 0, loan = 0, sleep = 0, family = 0, hope = 0\<rparr>\<rparr>"

section \<open>Properties\<close>

subsection \<open>Auxiliary facts\<close>

lemma wordsOf_table:
  "wordsOf [(str ''mr'', a), (str ''hi'', b), (str ''en'', c)] l =
     (if l = str ''mr'' then Inr a else if l = str ''hi'' then Inr b
      else if l = str ''en'' then Inr c
      else if l \<in> set objectPrototypeKeys then Inl TypeError else Inr a)"
  by (simp add: wordsOf_def getProperty_def)

lemma wordsOf_both:
  assumes "wordsOf CRITICAL_INDICATORS l = Inr cw"
  shows "\<exists>nw pw. wordsOf NEGATIVE_KEYWORDS l = Inr nw \<and> wordsOf POSITIVE_KEYWORDS l = Inr pw"
  using assms
  unfolding CRITICAL_INDICATORS_def NEGATIVE_KEYWORDS_def POSITIVE_KEYWORDS_def wordsOf_table
  by (simp split: if_splits)

lemma sentimentOf_critical:
  assumes "foundCritical \<noteq> []"
  shows "score (sentimentOf foundCritical fn fp) = - 1"
    and "label (sentimentOf foundCritical fn fp) = Negative"
    and "riskIndicators (sentimentOf foundCritical fn fp) = foundCritical"
  using assms by (simp_all add: sentimentOf_def Let_def Math_round_def)

lemma analyzeSentiment_found:
  assumes "\<not> (text = [] \<or> length (trim text) = 0)"
    and "wordsOf CRITICAL_INDICATORS (if language = [] then str ''mr'' else language) = Inr cw"
  shows "\<exists>fn fp. analyzeSentiment unicodeLower text language
           = Inr (sentimentOf (foundWords unicodeLower (toLowerCase unicodeLower text) cw) fn fp)"
proof -
  from wordsOf_both [OF assms(2)] obtain nw pw
    where "wordsOf NEGATIVE_KEYWORDS (if language = [] then str ''mr'' else language) = Inr nw"
      and "wordsOf POSITIVE_KEYWORDS (if language = [] then str ''mr'' else language) = Inr pw"
    by blast
  with assms show ?thesis
    by (auto simp add: analyzeSentiment_def Let_def)
qed

lemma pushSuggestions_concat:
  "pushSuggestions acc fs = acc @ concat (map suggestionsFor fs)"
  by (induction fs arbitrary: acc) (auto simp: suggestionsFor_def split: property.splits)

lemma floor_half: "\<lfloor>real_of_int h / 2\<rfloor> = h div 2"
  using floor_divide_of_int_eq[of h 2, where ?'a = real] by simp

lemma hopeFactor_div: "hopeFactor h = max 0 (5 - h div 2)"
  unfolding hopeFactor_def floor_half ..

lemma findLevel_bands:
  "findLevel LOW RISK_LEVELS s =
     (if 0 \<le> s \<and> s \<le> 6 then LOW
      else if 7 \<le> s \<and> s \<le> 12 then MODERATE
      else if 13 \<le> s \<and> s \<le> 18 then HIGH
      else if 19 \<le> s \<and> s \<le> 30 then CRITICAL
      else LOW)"
  by (simp add: RISK_LEVELS_def inBand_def)

lemma wordsOf_Inl: "wordsOf t l = Inl e \<Longrightarrow> e = TypeError"
  by (auto simp: wordsOf_def split: property.splits)

lemma analyzeSentiment_Inl: "analyzeSentiment unicodeLower t l = Inl e \<Longrightarrow> e = TypeError"
  by (auto simp: analyzeSentiment_def Let_def split: if_splits sum.splits dest: wordsOf_Inl)

lemma analyzeRiskFromCheckIn_Inl: "analyzeRiskFromCheckIn unicodeLower h n l = Inl e \<Longrightarrow> e = TypeError"
  by (cases n; cases "analyzeSentiment unicodeLower (the n) l")
     (auto simp: analyzeRiskFromCheckIn_def split: if_splits prod.splits dest: analyzeSentiment_Inl)

lemma createAlert_triggered:
  assumes "shouldTriggerAlert l" and "i < length (checkIns db)"
  shows "createAlert db i l =
     (db\<lparr>alerts := alerts db @
            [\<lparr>alert_checkInId = i,
              alert_severity = (if l = CRITICAL then Severity_critical else Severity_high),
              alert_assignedToId = counselorId (farmer db)\<rparr>],
         checkIns := (checkIns db)
            [i := (checkIns db ! i)
               \<lparr>row_alertTriggered := True,
                row_counselorNotified :=
                  Some (case counselorId (farmer db) of None \<Rightarrow> False | Some c \<Rightarrow> c \<noteq> [])\<rparr>]\<rparr>,
      Inr \<lparr>alert_checkInId = i,
              alert_severity = (if l = CRITICAL then Severity_critical else Severity_high),
              alert_assignedToId = counselorId (farmer db)\<rparr>)"
  using assms
  by (auto simp: createAlert_def getAlertSeverity_def shouldTriggerAlert_def Let_def)

lemma createCheckIn_Inl:
  assumes "analyzeRiskFromCheckIn unicodeLower (hopeLevel input) (notes' input) (effectiveLang db) = Inl e"
  shows "createCheckIn unicodeLower db input = (db, Inl e)"
  using assms by (simp add: createCheckIn_def effectiveLang_def Let_def)

lemma createCheckIn_Inr:
  assumes "analyzeRiskFromCheckIn unicodeLower (hopeLevel input) (notes' input) (effectiveLang db) = Inr ai"
  shows "snd (createCheckIn unicodeLower db input) =
           Inr (\<lparr>row_input = input,
                  row_riskScore = finalRiskScore (combine (assessRisk input) ai),
                  row_riskLevel = finalRiskLevel (combine (assessRisk input) ai),
                  row_criticalFactors =
                    JSON_stringify (allCriticalFactors (combine (assessRisk input) ai)),
                  row_alertTriggered =
                    shouldTriggerAlert (finalRiskLevel (combine (assessRisk input) ai)),
                  row_counselorNotified = None\<rparr>,
                generateResponse (finalRiskLevel (combine (assessRisk input) ai))
                  (allCriticalFactors (combine (assessRisk input) ai)))"
    and "checkIns (fst (createCheckIn unicodeLower db input)) =
           checkIns db @
             [\<lparr>row_input = input,
                  row_riskScore = finalRiskScore (combine (assessRisk input) ai),
                  row_riskLevel = finalRiskLevel (combine (assessRisk input) ai),
                  row_criticalFactors =
                    JSON_stringify (allCriticalFactors (combine (assessRisk input) ai)),
                  row_alertTriggered =
                    shouldTriggerAlert (finalRiskLevel (combine (assessRisk input) ai)),
                  row_counselorNotified =
                    (if shouldTriggerAlert (finalRiskLevel (combine (assessRisk input) ai))
                     then Some (case counselorId (farmer db) of
                                  None \<Rightarrow> False | Some c \<Rightarrow> c \<noteq> [])
                     else None)\<rparr>]"
    and "alerts (fst (createCheckIn unicodeLower db input)) =
           alerts db @
             (if shouldTriggerAlert (finalRiskLevel (combine (assessRisk input) ai))
              then [\<lparr>alert_checkInId = length (checkIns db),
                      alert_severity =
                        (if finalRiskLevel (combine (assessRisk input) ai) = CRITICAL
                         then Severity_critical else Severity_high),
                      alert_assignedToId = counselorId (farmer db)\<rparr>]
              else [])"
    and "farmer (fst (createCheckIn unicodeLower db input)) =
           (if finalRiskLevel (combine (assessRisk input) ai) = CRITICAL
            then (farmer db)\<lparr>status := critical_watch\<rparr> else farmer db)"
  using assms
  by (simp_all add: createCheckIn_def effectiveLang_def Let_def createAlert_triggered)

lemma effectiveLang_again:
  "(if effectiveLang db = [] then str ''mr'' else effectiveLang db) = effectiveLang db"
  by (simp add: effectiveLang_def str_def)

lemma notesRisk_critical:
  assumes "foundCritical \<noteq> []"
  shows "notesRisk (sentimentOf foundCritical fn fp)
           = (40, str ''crisis_keywords_detected'' # foundCritical)"
  using assms by (simp add: notesRisk_def sentimentOf_critical)

lemma analyzeRisk_crisis:
  assumes "n \<noteq> [] \<and> length (trim n) > 0"
    and "wordsOf CRITICAL_INDICATORS (if language = [] then str ''mr'' else language) = Inr cw"
    and "foundWords unicodeLower (toLowerCase unicodeLower n) cw \<noteq> []"
  shows "analyzeRiskFromCheckIn unicodeLower h (Some n) language =
           Inr \<lparr>additionalRiskScore = 40 + (if h \<le> 2 then 15 else 0),
                indicators = str ''crisis_keywords_detected'' # foundWords unicodeLower (toLowerCase unicodeLower n) cw
                  @ (if h \<le> 2 then [str ''very_low_hope''] else [])\<rparr>"
proof -
  from assms(1) have nb: "\<not> (n = [] \<or> length (trim n) = 0)" by simp
  from analyzeSentiment_found [OF nb assms(2)] obtain fn fp
    where "analyzeSentiment unicodeLower n language = Inr (sentimentOf (foundWords unicodeLower (toLowerCase unicodeLower n) cw) fn fp)"
    by blast
  with assms(1) notesRisk_critical [OF assms(3)] show ?thesis
    by (simp add: analyzeRiskFromCheckIn_def Math_round_def)
qed

lemma combine_fields:
  "finalRiskScore (combine a ai) =
     (if str ''crisis_keywords_detected'' \<in> set (indicators ai)
      then min 100 (riskScore a + additionalRiskScore ai + 20)
      else riskScore a + additionalRiskScore ai)"
  "intermediateRiskLevel (combine a ai) =
     (if str ''crisis_keywords_detected'' \<in> set (indicators ai)
      then escalate (riskLevel a) else riskLevel a)"
  "finalRiskLevel (combine a ai) = recalculate (finalRiskScore (combine a ai))"
  "allCriticalFactors (combine a ai) = criticalFactors a @ indicators ai"
  by (simp_all add: combine_def Let_def)

lemma persisted_Inr:
  assumes "analyzeRiskFromCheckIn unicodeLower (hopeLevel input) (notes' input) (effectiveLang db) = Inr ai"
  shows "persisted unicodeLower db input =
           Some \<lparr>row_input = input,
                  row_riskScore = finalRiskScore (combine (assessRisk input) ai),
                  row_riskLevel = finalRiskLevel (combine (assessRisk input) ai),
                  row_criticalFactors =
                    JSON_stringify (allCriticalFactors (combine (assessRisk input) ai)),
                  row_alertTriggered =
                    shouldTriggerAlert (finalRiskLevel (combine (assessRisk input) ai)),
                  row_counselorNotified =
                    (if shouldTriggerAlert (finalRiskLevel (combine (assessRisk input) ai))
                     then Some (case counselorId (farmer db) of
                                  None \<Rightarrow> False | Some c \<Rightarrow> c \<noteq> [])
                     else None)\<rparr>"
  by (simp add: persisted_def Let_def createCheckIn_Inr(2) [OF assms])

lemma persisted_Inl:
  assumes "analyzeRiskFromCheckIn unicodeLower (hopeLevel input) (notes' input) (effectiveLang db) = Inl e"
  shows "persisted unicodeLower db input = None"
  by (simp add: persisted_def Let_def createCheckIn_Inl [OF assms])

lemma analyzeRisk_no_notes:
  "analyzeRiskFromCheckIn unicodeLower h None l =
     Inr \<lparr>additionalRiskScore = (if h \<le> 2 then 15 else 0),
          indicators = (if h \<le> 2 then [str ''very_low_hope''] else [])\<rparr>"
  by (simp add: analyzeRiskFromCheckIn_def Math_round_def)

lemma assessRisk_worst:
  "riskScore (assessRisk example_worst) = 25" "riskLevel (assessRisk example_worst) = CRITICAL"
  by (simp_all add: assessRisk_def example_worst_def hopeFactor_div findLevel_bands Let_def)

lemma assessRisk_calm:
  "riskScore (assessRisk example_calm) = 0" "riskLevel (assessRisk example_calm) = LOW"
  "criticalFactors (assessRisk example_calm) = []"
  by (simp_all add: assessRisk_def example_calm_def hopeFactor_div findLevel_bands Let_def
      identifyCriticalFactors_def)

lemma poison_facts:
  "str ''poison'' \<noteq> [] \<and> length (trim (str ''poison'')) > 0"
  "wordsOf CRITICAL_INDICATORS (if str ''en'' = [] then str ''mr'' else str ''en'')
     = Inr CRITICAL_INDICATORS_en"
  "foundWords unicodeLower (toLowerCase unicodeLower (str ''poison'')) CRITICAL_INDICATORS_en = [str ''poison'']"
  "foundWords unicodeLower (toLowerCase unicodeLower (str ''poison'')) NEGATIVE_KEYWORDS_en = []"
  "foundWords unicodeLower (toLowerCase unicodeLower (str ''poison'')) POSITIVE_KEYWORDS_en = []"
      apply (simp add: str_def trim_def isWhiteSpace_def)
     apply (simp add: CRITICAL_INDICATORS_def wordsOf_def getProperty_def str_def)
    apply (simp add: foundWords_def str_def toLowerCase_def plainUnit_def asciiLower_def CRITICAL_INDICATORS_en_def)
   apply (simp add: foundWords_def str_def toLowerCase_def plainUnit_def asciiLower_def NEGATIVE_KEYWORDS_en_def)
  apply (simp add: foundWords_def str_def toLowerCase_def plainUnit_def asciiLower_def POSITIVE_KEYWORDS_en_def)
  done

lemma analyzeRisk_poison:
  "analyzeRiskFromCheckIn unicodeLower h (Some (str ''poison'')) (str ''en'') =
     Inr \<lparr>additionalRiskScore = 40 + (if h \<le> 2 then 15 else 0),
          indicators = str ''crisis_keywords_detected'' # [str ''poison'']
            @ (if h \<le> 2 then [str ''very_low_hope''] else [])\<rparr>"
  using analyzeRisk_crisis [OF poison_facts(1) poison_facts(2), where h = h and unicodeLower = unicodeLower]
  by (simp add: poison_facts(3))

lemma assessRisk_hope8:
  "riskScore (assessRisk example_hope8) = 1" "riskLevel (assessRisk example_hope8) = LOW"
  "criticalFactors (assessRisk example_hope8) = []"
  by (simp_all add: assessRisk_def example_hope8_def hopeFactor_div findLevel_bands Let_def
      identifyCriticalFactors_def)

lemma hope8_score_positive:
  "hopeLevel input = 8 \<Longrightarrow> 1 \<le> riskScore (assessRisk input)"
  by (cases "cropCondition input"; cases "loanPressure input"; cases "sleepQuality input";
      cases "familySupport input")
     (simp_all add: assessRisk_def Let_def hopeFactor_div)

lemma persisted_hope8:
  "persisted unicodeLower example_db example_hope8 =
     Some \<lparr>row_input = example_hope8, row_riskScore = 61, row_riskLevel = HIGH,
            row_criticalFactors =
              JSON_stringify [str ''crisis_keywords_detected'', str ''poison''],
            row_alertTriggered = True, row_counselorNotified = Some False\<rparr>"
proof -
  have lang: "effectiveLang example_db = str ''en''"
    by (simp add: effectiveLang_def example_db_def str_def)
  have ai: "analyzeRiskFromCheckIn unicodeLower (hopeLevel example_hope8) (notes' example_hope8)
              (effectiveLang example_db)
            = Inr \<lparr>additionalRiskScore = 40,
                  indicators = [str ''crisis_keywords_detected'', str ''poison'']\<rparr>"
    unfolding lang using analyzeRisk_poison [where h = 8] by (simp add: example_hope8_def)
  have cn: "counselorId (farmer example_db) = None"
    by (simp add: example_db_def)
  show ?thesis
    unfolding persisted_Inr [OF ai]
    by (simp add: combine_fields assessRisk_hope8 recalculate_def shouldTriggerAlert_def cn)
qed

lemma persisted_worst:
  "persisted unicodeLower db example_worst =
           Some \<lparr>row_input = example_worst,
                  row_riskScore = 40,
                  row_riskLevel = MODERATE,
                  row_criticalFactors =
                    JSON_stringify [str ''crop_poor'', str ''loan_high'', str ''sleep_poor'',
                      str ''family_weak'', str ''hope_low'', str ''very_low_hope''],
                  row_alertTriggered = False,
                  row_counselorNotified = None\<rparr>"
proof -
  have ai: "analyzeRiskFromCheckIn unicodeLower (hopeLevel example_worst) (notes' example_worst)
              (effectiveLang db)
            = Inr \<lparr>additionalRiskScore = 15, indicators = [str ''very_low_hope'']\<rparr>"
    by (simp add: analyzeRisk_no_notes example_worst_def)
  have cf: "criticalFactors (assessRisk example_worst) =
      [str ''crop_poor'', str ''loan_high'', str ''sleep_poor'',
                      str ''family_weak'', str ''hope_low'']"
    by (simp add: assessRisk_def Let_def identifyCriticalFactors_def example_worst_def)
  have tag: "str ''crisis_keywords_detected'' \<noteq> str ''very_low_hope''"
    by (simp add: str_def)
  show ?thesis
    unfolding persisted_Inr [OF ai]
    by (simp add: combine_fields assessRisk_worst cf tag recalculate_def shouldTriggerAlert_def)
qed

lemma persisted_calm:
  "persisted unicodeLower example_db example_calm =
     Some \<lparr>row_input = example_calm, row_riskScore = 60, row_riskLevel = HIGH,
            row_criticalFactors =
              JSON_stringify [str ''crisis_keywords_detected'', str ''poison''],
            row_alertTriggered = True, row_counselorNotified = Some False\<rparr>"
proof -
  have lang: "effectiveLang example_db = str ''en''"
    by (simp add: effectiveLang_def example_db_def str_def)
  have ai: "analyzeRiskFromCheckIn unicodeLower (hopeLevel example_calm) (notes' example_calm)
              (effectiveLang example_db)
            = Inr \<lparr>additionalRiskScore = 40,
                  indicators = [str ''crisis_keywords_detected'', str ''poison'']\<rparr>"
    unfolding lang using analyzeRisk_poison [where h = 10] by (simp add: example_calm_def)
  have cn: "counselorId (farmer example_db) = None"
    by (simp add: example_db_def)
  show ?thesis
    unfolding persisted_Inr [OF ai]
    by (simp add: combine_fields assessRisk_calm recalculate_def shouldTriggerAlert_def cn)
qed

subsection \<open>The sentiment analyser\<close>

text \<open>
  C5. For a text that is not blank and a language whose list of critical indicators is
  \<open>criticalWords\<close> (the language's own list, or the Marathi list as the fallback): if the
  lowered text includes one of these words, lowered, then \<open>analyzeSentiment\<close> returns a
  result and its score is -1, whatever negative and positive keywords the text has, and
  whatever the engine's case tables give on texts outside ASCII and Devanagari.
\<close>

theorem critical_dominates:
  assumes "\<not> (text = [] \<or> length (trim text) = 0)"
    and "wordsOf CRITICAL_INDICATORS (if language = [] then str ''mr'' else language)
           = Inr criticalWords"
    and "word \<in> set criticalWords"
    and "includes_str (toLowerCase unicodeLower text) (toLowerCase unicodeLower word)"
  shows "\<exists>result. analyzeSentiment unicodeLower text language = Inr result \<and> score result = - 1"
proof -
  from assms(3,4) have found: "foundWords unicodeLower (toLowerCase unicodeLower text) criticalWords \<noteq> []"
    by (auto simp: foundWords_def filter_empty_conv)
  from analyzeSentiment_found [OF assms(1,2)] obtain fn fp
    where "analyzeSentiment unicodeLower text language
             = Inr (sentimentOf (foundWords unicodeLower (toLowerCase unicodeLower text) criticalWords) fn fp)"
    by blast
  with sentimentOf_critical(1) [OF found] show ?thesis by simp
qed

theorem critical_dominates_witness:
  "\<not> (str ''SUICIDE hope happy'' = [] \<or> length (trim (str ''SUICIDE hope happy'')) = 0)
   \<and> wordsOf CRITICAL_INDICATORS (if str ''en'' = [] then str ''mr'' else str ''en'')
       = Inr CRITICAL_INDICATORS_en
   \<and> str ''suicide'' \<in> set CRITICAL_INDICATORS_en
   \<and> includes_str (toLowerCase asciiLower (str ''SUICIDE hope happy'')) (toLowerCase asciiLower (str ''suicide''))
   \<and> foundWords asciiLower (toLowerCase asciiLower (str ''SUICIDE hope happy'')) POSITIVE_KEYWORDS_en
        = [str ''hope'', str ''happy'']
   \<and> (\<exists>result. analyzeSentiment asciiLower (str ''SUICIDE hope happy'') (str ''en'') = Inr result
         \<and> score result = - 1)"
proof -
  have h1: "\<not> (str ''SUICIDE hope happy'' = [] \<or> length (trim (str ''SUICIDE hope happy'')) = 0)"
    by (simp add: str_def trim_def isWhiteSpace_def)
  have h2: "wordsOf CRITICAL_INDICATORS (if str ''en'' = [] then str ''mr'' else str ''en'')
       = Inr CRITICAL_INDICATORS_en"
    by (simp add: CRITICAL_INDICATORS_def wordsOf_def getProperty_def str_def)
  have h3: "str ''suicide'' \<in> set CRITICAL_INDICATORS_en"
    by (simp add: CRITICAL_INDICATORS_en_def)
  have h4: "includes_str (toLowerCase asciiLower (str ''SUICIDE hope happy'')) (toLowerCase asciiLower (str ''suicide''))"
    by (simp add: str_def toLowerCase_def plainUnit_def asciiLower_def)
  have h5: "foundWords asciiLower (toLowerCase asciiLower (str ''SUICIDE hope happy'')) POSITIVE_KEYWORDS_en
        = [str ''hope'', str ''happy'']"
    by (simp add: foundWords_def str_def toLowerCase_def plainUnit_def asciiLower_def POSITIVE_KEYWORDS_en_def)
  from h1 h2 h3 h4 h5 critical_dominates [OF h1 h2 h3 h4] show ?thesis by blast
qed

subsection \<open>The response\<close>

text \<open>
  C8. For every risk level and every list of critical factors, the suggestions of the
  response are: the suggestions of the factors, in the order of the factors; then the
  agriculture suggestion if these are fewer than 2; then the government suggestion if the
  level is not LOW and the list so far is shorter than 3; all cut to the first 4. The
  list has at least 1 and at most 4 entries.
\<close>

theorem suggestions_shape:
  "suggestions (generateResponse level fs) =
     take 4
       (let derived = concat (map suggestionsFor fs);
            withAgriculture =
              derived @ (if length derived < 2 then [Suggestion_agriculture] else []);
            withGovernment =
              withAgriculture @ (if level \<noteq> LOW \<and> length withAgriculture < 3
                                 then [Suggestion_government] else [])
        in withGovernment)
   \<and> 1 \<le> length (suggestions (generateResponse level fs))
   \<and> length (suggestions (generateResponse level fs)) \<le> 4"
  by (simp add: generateResponse_def pushSuggestions_concat Let_def)

theorem suggestions_shape_witness:
  "suggestions (generateResponse HIGH [str ''crop_poor'', str ''crisis_keywords_detected''])
     = [Suggestion_crop_poor, Suggestion_agriculture, Suggestion_government]
   \<and> suggestions (generateResponse LOW []) = [Suggestion_agriculture]
   \<and> 1 \<le> length (suggestions (generateResponse LOW []))"
  using suggestions_shape [of HIGH "[str ''crop_poor'', str ''crisis_keywords_detected'']"]
    suggestions_shape [of LOW "[]"]
  by (simp add: suggestionsFor_def getProperty_def SUGGESTIONS_def objectPrototypeKeys_def
      str_def)

subsection \<open>The structured assessment\<close>

text \<open>
  C6. The bands of \<open>RISK_LEVELS\<close> are LOW 0 to 6, MODERATE 7 to 12, HIGH 13 to 18 and
  CRITICAL 19 to 30. Every score from 0 to 30 lies in exactly one band and no score at all
  lies in two; \<open>assessRisk\<close> takes its level from its score by these bands; the level does
  not decrease when the score grows within 0 to 30; a score outside all bands gets LOW.
\<close>

theorem risk_bands_partition:
  "(0 \<le> s \<and> s \<le> 30 \<longrightarrow> length (filter (inBand s) RISK_LEVELS) = 1)
   \<and> length (filter (inBand v) RISK_LEVELS) \<le> 1
   \<and> riskLevel (assessRisk input) = findLevel LOW RISK_LEVELS (riskScore (assessRisk input))
   \<and> findLevel LOW RISK_LEVELS v =
       (if 0 \<le> v \<and> v \<le> 6 then LOW
        else if 7 \<le> v \<and> v \<le> 12 then MODERATE
        else if 13 \<le> v \<and> v \<le> 18 then HIGH
        else if 19 \<le> v \<and> v \<le> 30 then CRITICAL
        else LOW)
   \<and> (0 \<le> s \<and> s \<le> t \<and> t \<le> 30 \<longrightarrow>
        levelRank (findLevel LOW RISK_LEVELS s) \<le> levelRank (findLevel LOW RISK_LEVELS t))
   \<and> (u < 0 \<or> 30 < u \<longrightarrow> findLevel LOW RISK_LEVELS u = LOW)"
proof -
  have part: "0 \<le> s \<and> s \<le> 30 \<longrightarrow> length (filter (inBand s) RISK_LEVELS) = 1"
    by (simp add: RISK_LEVELS_def inBand_def)
  have disjoint: "length (filter (inBand v) RISK_LEVELS) \<le> 1"
    by (simp add: RISK_LEVELS_def inBand_def)
  have pipeline: "riskLevel (assessRisk input)
      = findLevel LOW RISK_LEVELS (riskScore (assessRisk input))"
    by (simp add: assessRisk_def Let_def)
  have mono: "0 \<le> s \<and> s \<le> t \<and> t \<le> 30 \<longrightarrow>
      levelRank (findLevel LOW RISK_LEVELS s) \<le> levelRank (findLevel LOW RISK_LEVELS t)"
    unfolding findLevel_bands by simp
  have outside: "u < 0 \<or> 30 < u \<longrightarrow> findLevel LOW RISK_LEVELS u = LOW"
    unfolding findLevel_bands by auto
  from part disjoint pipeline findLevel_bands mono outside show ?thesis by blast
qed

theorem risk_bands_partition_witness:
  "(0::int) \<le> 12 \<and> (12::int) \<le> 13 \<and> (13::int) \<le> 30 \<and> (30::int) < 31
   \<and> length (filter (inBand 12) RISK_LEVELS) = 1
   \<and> findLevel LOW RISK_LEVELS 12 = MODERATE
   \<and> findLevel LOW RISK_LEVELS 13 = HIGH
   \<and> levelRank (findLevel LOW RISK_LEVELS 12) \<le> levelRank (findLevel LOW RISK_LEVELS 13)
   \<and> findLevel LOW RISK_LEVELS 31 = LOW"
  using risk_bands_partition [of 12 12 example_worst 13 31]
  by (simp add: RISK_LEVELS_def inBand_def)

text \<open>
  C7. The hope factor that \<open>assessRisk\<close> computes is \<open>max 0 (5 - hopeLevel div 2)\<close>, where
  \<open>div\<close> rounds down; it is 0 at hope level 10 and 5 at hope level 1; and it does not
  increase when the hope level grows (for all integers, so on 1 to 10).
\<close>

theorem hope_factor:
  "hope (factors (assessRisk input)) = max 0 (5 - hopeLevel input div 2)
   \<and> hopeFactor 10 = 0 \<and> hopeFactor 1 = 5
   \<and> (h1 \<le> h2 \<longrightarrow> hopeFactor h2 \<le> hopeFactor h1)"
proof -
  have "hope (factors (assessRisk input)) = max 0 (5 - hopeLevel input div 2)"
    by (simp add: assessRisk_def Let_def hopeFactor_div)
  moreover have "hopeFactor 10 = 0" "hopeFactor 1 = 5"
    by (simp_all add: hopeFactor_div)
  moreover have "h1 \<le> h2 \<longrightarrow> hopeFactor h2 \<le> hopeFactor h1"
    unfolding hopeFactor_div using zdiv_mono1 [of h1 h2 2] by auto
  ultimately show ?thesis by blast
qed

theorem hope_factor_witness:
  "(1::int) \<le> 10 \<and> hopeFactor 10 \<le> hopeFactor 1
   \<and> hope (factors (assessRisk example_worst)) = 5"
  using hope_factor [of example_worst 1 10]
  by (simp add: example_worst_def)

subsection \<open>Combining the two assessments\<close>

text \<open>
  C1, as the code has it. The risk level of the check-in row that \<open>createCheckIn\<close> leaves
  in the store is computed from the row's risk score alone: CRITICAL from 80, HIGH from
  60, MODERATE from 40, LOW below. These are not the bands of \<open>assessRisk\<close>.
\<close>

theorem final_level_recalculated:
  assumes "persisted unicodeLower db input = Some row"
  shows "row_riskLevel row =
           (if row_riskScore row \<ge> 80 then CRITICAL
            else if row_riskScore row \<ge> 60 then HIGH
            else if row_riskScore row \<ge> 40 then MODERATE
            else LOW)"
proof (cases "analyzeRiskFromCheckIn unicodeLower (hopeLevel input) (notes' input) (effectiveLang db)")
  case (Inl e)
  from persisted_Inl [OF Inl] assms show ?thesis by simp
next
  case (Inr ai)
  from persisted_Inr [OF Inr] assms show ?thesis
    by (auto simp: combine_fields(3) recalculate_def)
qed

theorem final_level_recalculated_witness:
  "persisted asciiLower example_db example_worst =
           Some \<lparr>row_input = example_worst,
                  row_riskScore = 40,
                  row_riskLevel = MODERATE,
                  row_criticalFactors =
                    JSON_stringify [str ''crop_poor'', str ''loan_high'', str ''sleep_poor'',
                      str ''family_weak'', str ''hope_low'', str ''very_low_hope''],
                  row_alertTriggered = False,
                  row_counselorNotified = None\<rparr>
   \<and> MODERATE = (if (40::int) \<ge> 80 then CRITICAL
            else if (40::int) \<ge> 60 then HIGH
            else if (40::int) \<ge> 40 then MODERATE
            else LOW)"
  using final_level_recalculated [OF persisted_worst [where db = example_db and unicodeLower = asciiLower]]
    persisted_worst [where db = example_db and unicodeLower = asciiLower]
  by simp

text \<open>
  C1, as the claim states it, fails: for the worst answers without notes the stored score
  is 40 and the stored level MODERATE, while the bands of \<open>assessRisk\<close> give LOW for 40.
\<close>

theorem final_level_structured_bands_counterexample:
  "persisted asciiLower example_db example_worst \<noteq> None
   \<and> row_riskScore (the (persisted asciiLower example_db example_worst)) = 40
   \<and> row_riskLevel (the (persisted asciiLower example_db example_worst)) = MODERATE
   \<and> findLevel LOW RISK_LEVELS 40 = LOW
   \<and> row_riskLevel (the (persisted asciiLower example_db example_worst))
       \<noteq> findLevel LOW RISK_LEVELS (row_riskScore (the (persisted asciiLower example_db example_worst)))"
  by (simp add: persisted_worst findLevel_bands)

text \<open>
  C2. For the worst answers at hope level 1 without notes, \<open>assessRisk\<close> gives score 25 and
  level CRITICAL. \<open>createCheckIn\<close> then stores score 40 and level MODERATE, with
  \<open>alertTriggered\<close> false; it adds no alert, leaves the farmer's row (so the status) as it
  was, and the response does not show the emergency block. This holds in every store.
\<close>

theorem worst_answers_no_alert:
  "riskScore (assessRisk example_worst) = 25
   \<and> riskLevel (assessRisk example_worst) = CRITICAL
   \<and> map_option row_riskScore (persisted unicodeLower db example_worst) = Some 40
   \<and> map_option row_riskLevel (persisted unicodeLower db example_worst) = Some MODERATE
   \<and> map_option row_alertTriggered (persisted unicodeLower db example_worst) = Some False
   \<and> alerts (fst (createCheckIn unicodeLower db example_worst)) = alerts db
   \<and> farmer (fst (createCheckIn unicodeLower db example_worst)) = farmer db
   \<and> map_sum id (showEmergency \<circ> snd) (snd (createCheckIn unicodeLower db example_worst)) = Inr False"
proof -
  have ai: "analyzeRiskFromCheckIn unicodeLower (hopeLevel example_worst) (notes' example_worst)
              (effectiveLang db)
            = Inr \<lparr>additionalRiskScore = 15, indicators = [str ''very_low_hope'']\<rparr>"
    by (simp add: analyzeRisk_no_notes example_worst_def)
  have tag: "str ''crisis_keywords_detected'' \<noteq> str ''very_low_hope''"
    by (simp add: str_def)
  have lvl: "finalRiskLevel (combine (assessRisk example_worst)
       \<lparr>additionalRiskScore = 15, indicators = [str ''very_low_hope'']\<rparr>) = MODERATE"
    by (simp add: combine_fields assessRisk_worst tag recalculate_def)
  show ?thesis
    by (simp add: assessRisk_worst persisted_worst createCheckIn_Inr [OF ai] lvl
        shouldTriggerAlert_def generateResponse_def Let_def)
qed

text \<open>
  C3, as the code has it. For notes that are not blank and include a critical indicator
  of the language, hope level 8, and a structured assessment that is LOW with a score
  between 0 and 6: \<open>analyzeRiskFromCheckIn\<close> returns the additional score 40 (30 for the
  crisis, 10 for the negative label that the crisis forces), the final score is the
  structured score plus 60, and the final level is HIGH. This holds for every
  \<open>unicodeLower\<close>.
\<close>

theorem crisis_fusion:
  assumes "n \<noteq> [] \<and> length (trim n) > 0"
    and "wordsOf CRITICAL_INDICATORS (if language = [] then str ''mr'' else language)
           = Inr criticalWords"
    and "foundWords unicodeLower (toLowerCase unicodeLower n) criticalWords \<noteq> []"
    and "riskLevel structured = LOW"
    and "0 \<le> riskScore structured \<and> riskScore structured \<le> 6"
  shows "\<exists>ai. analyzeRiskFromCheckIn unicodeLower 8 (Some n) language = Inr ai
           \<and> additionalRiskScore ai = 40
           \<and> finalRiskScore (combine structured ai) = riskScore structured + 60
           \<and> finalRiskLevel (combine structured ai) = HIGH"
proof -
  let ?ai = "\<lparr>additionalRiskScore = 40,
              indicators = str ''crisis_keywords_detected''
                # foundWords unicodeLower (toLowerCase unicodeLower n) criticalWords\<rparr>"
  from analyzeRisk_crisis [OF assms(1,2,3), where h = 8]
  have ai: "analyzeRiskFromCheckIn unicodeLower 8 (Some n) language = Inr ?ai" by simp
  from assms(5) have score: "finalRiskScore (combine structured ?ai) = riskScore structured + 60"
    by (simp add: combine_fields(1))
  with assms(5) have "finalRiskLevel (combine structured ?ai) = HIGH"
    by (simp add: combine_fields(3) recalculate_def)
  with ai score show ?thesis by simp
qed

theorem crisis_fusion_witness:
  "(str ''poison'' \<noteq> [] \<and> length (trim (str ''poison'')) > 0)
   \<and> wordsOf CRITICAL_INDICATORS (if str ''en'' = [] then str ''mr'' else str ''en'')
       = Inr CRITICAL_INDICATORS_en
   \<and> foundWords asciiLower (toLowerCase asciiLower (str ''poison'')) CRITICAL_INDICATORS_en \<noteq> []
   \<and> riskLevel example_structured = LOW
   \<and> (0 \<le> riskScore example_structured \<and> riskScore example_structured \<le> 6)
   \<and> (\<exists>ai. analyzeRiskFromCheckIn asciiLower 8 (Some (str ''poison'')) (str ''en'') = Inr ai
           \<and> additionalRiskScore ai = 40
           \<and> finalRiskScore (combine example_structured ai) = 60
           \<and> finalRiskLevel (combine example_structured ai) = HIGH)"
proof -
  have h3: "foundWords asciiLower (toLowerCase asciiLower (str ''poison'')) CRITICAL_INDICATORS_en \<noteq> []"
    by (simp add: poison_facts(3))
  have h4: "riskLevel example_structured = LOW"
    by (simp add: example_structured_def)
  have h5: "0 \<le> riskScore example_structured \<and> riskScore example_structured \<le> 6"
    by (simp add: example_structured_def)
  have s: "riskScore example_structured = 0"
    by (simp add: example_structured_def)
  from crisis_fusion [OF poison_facts(1) poison_facts(2) h3 h4 h5]
    poison_facts(1) poison_facts(2) h3 h4 h5
  show ?thesis unfolding s by simp
qed

text \<open>
  C3, as the claim states it, fails: the note \<^verbatim>\<open>poison\<close> in English has one critical
  indicator and no negative or positive keyword; at hope level 8 the additional score is
  40, not 30; with a structured score 0 the final score is 60 and the level HIGH, not 50
  and MODERATE. In \<open>createCheckIn\<close> the best answers at hope level 8 have the structured
  score 1, and the stored row has score 61 and level HIGH.
\<close>

theorem crisis_fusion_counterexample:
  "foundWords asciiLower (toLowerCase asciiLower (str ''poison'')) CRITICAL_INDICATORS_en = [str ''poison'']
   \<and> foundWords asciiLower (toLowerCase asciiLower (str ''poison'')) NEGATIVE_KEYWORDS_en = []
   \<and> foundWords asciiLower (toLowerCase asciiLower (str ''poison'')) POSITIVE_KEYWORDS_en = []
   \<and> riskScore example_structured = 0 \<and> riskLevel example_structured = LOW
   \<and> analyzeRiskFromCheckIn asciiLower 8 (Some (str ''poison'')) (str ''en'') =
       Inr \<lparr>additionalRiskScore = 40,
            indicators = [str ''crisis_keywords_detected'', str ''poison'']\<rparr>
   \<and> finalRiskScore
        (combine example_structured
           \<lparr>additionalRiskScore = 40,
            indicators = [str ''crisis_keywords_detected'', str ''poison'']\<rparr>) = 60
   \<and> finalRiskLevel
        (combine example_structured
           \<lparr>additionalRiskScore = 40,
            indicators = [str ''crisis_keywords_detected'', str ''poison'']\<rparr>) = HIGH
   \<and> hopeLevel example_hope8 = 8 \<and> notes' example_hope8 = Some (str ''poison'')
   \<and> riskScore (assessRisk example_hope8) = 1 \<and> riskLevel (assessRisk example_hope8) = LOW
   \<and> map_option row_riskScore (persisted asciiLower example_db example_hope8) = Some 61
   \<and> map_option row_riskLevel (persisted asciiLower example_db example_hope8) = Some HIGH"
  using analyzeRisk_poison [where h = 8]
  by (simp add: poison_facts(3,4,5) example_structured_def combine_fields recalculate_def
      assessRisk_hope8 persisted_hope8)
    (simp add: example_hope8_def)

text \<open>
  C4. For the best answers at hope level 10 with the note \<^verbatim>\<open>poison\<close> (English), the
  structured level is LOW and crisis keywords are detected; the level after the
  escalation step is CRITICAL, not MODERATE, and the final score is 0 + 40 + 20 = 60. The
  three consecutive tests send every level to CRITICAL.
\<close>

theorem escalation_cascades:
  "riskScore (assessRisk example_calm) = 0
   \<and> riskLevel (assessRisk example_calm) = LOW
   \<and> analyzeRiskFromCheckIn unicodeLower (hopeLevel example_calm) (notes' example_calm) (str ''en'') =
       Inr \<lparr>additionalRiskScore = 40,
            indicators = [str ''crisis_keywords_detected'', str ''poison'']\<rparr>
   \<and> intermediateRiskLevel
        (combine (assessRisk example_calm)
           \<lparr>additionalRiskScore = 40,
            indicators = [str ''crisis_keywords_detected'', str ''poison'']\<rparr>) = CRITICAL
   \<and> finalRiskScore
        (combine (assessRisk example_calm)
           \<lparr>additionalRiskScore = 40,
            indicators = [str ''crisis_keywords_detected'', str ''poison'']\<rparr>) = 60
   \<and> escalate LOW = CRITICAL \<and> escalate MODERATE = CRITICAL
   \<and> escalate HIGH = CRITICAL \<and> escalate CRITICAL = CRITICAL"
proof -
  have "analyzeRiskFromCheckIn unicodeLower (hopeLevel example_calm) (notes' example_calm) (str ''en'') =
       Inr \<lparr>additionalRiskScore = 40,
            indicators = [str ''crisis_keywords_detected'', str ''poison'']\<rparr>"
    using analyzeRisk_poison [where h = 10] by (simp add: example_calm_def)
  moreover have "escalate LOW = CRITICAL" "escalate MODERATE = CRITICAL"
    "escalate HIGH = CRITICAL" "escalate CRITICAL = CRITICAL"
    by (simp_all add: escalate_def)
  ultimately show ?thesis
    by (simp add: assessRisk_calm combine_fields)
qed

subsection \<open>Alerts\<close>

text \<open>
  C9. \<open>createCheckIn\<close> never fails with the error of \<open>createAlert\<close>. \<open>createAlert\<close> fails
  with that error exactly for the levels for which \<open>shouldTriggerAlert\<close> is false, these
  are the levels other than HIGH and CRITICAL, and for a level that triggers an alert
  \<open>getAlertSeverity\<close> returns a severity: high for HIGH and critical for CRITICAL.
\<close>

theorem alert_error_unreachable:
  "snd (createCheckIn unicodeLower db input)
     \<noteq> Inl (Error ''Cannot create alert for non-high/critical risk level'')
   \<and> (snd (createAlert db i level)
         = Inl (Error ''Cannot create alert for non-high/critical risk level'')
       \<longleftrightarrow> \<not> shouldTriggerAlert level)
   \<and> (shouldTriggerAlert level \<longleftrightarrow> level = HIGH \<or> level = CRITICAL)
   \<and> (shouldTriggerAlert level \<longrightarrow>
        getAlertSeverity level
          = Some (if level = CRITICAL then Severity_critical else Severity_high))
   \<and> getAlertSeverity HIGH = Some Severity_high
   \<and> getAlertSeverity CRITICAL = Some Severity_critical"
proof -
  have pipeline: "snd (createCheckIn unicodeLower db input)
     \<noteq> Inl (Error ''Cannot create alert for non-high/critical risk level'')"
  proof (cases "analyzeRiskFromCheckIn unicodeLower (hopeLevel input) (notes' input) (effectiveLang db)")
    case (Inl e)
    from analyzeRiskFromCheckIn_Inl [OF Inl] createCheckIn_Inl [OF Inl] show ?thesis by simp
  next
    case (Inr ai)
    from createCheckIn_Inr(1) [OF Inr] show ?thesis by simp
  qed
  have branch: "snd (createAlert db i level)
         = Inl (Error ''Cannot create alert for non-high/critical risk level'')
       \<longleftrightarrow> \<not> shouldTriggerAlert level"
    by (cases level)
       (simp_all add: createAlert_def getAlertSeverity_def shouldTriggerAlert_def Let_def)
  have sev: "shouldTriggerAlert level \<longrightarrow>
        getAlertSeverity level
          = Some (if level = CRITICAL then Severity_critical else Severity_high)"
    by (cases level) (simp_all add: getAlertSeverity_def shouldTriggerAlert_def)
  from pipeline branch sev show ?thesis
    by (simp add: getAlertSeverity_def shouldTriggerAlert_def)
qed

theorem alert_error_unreachable_witness:
  "shouldTriggerAlert HIGH
   \<and> getAlertSeverity HIGH = Some Severity_high
   \<and> map_option row_riskLevel (persisted asciiLower example_db example_calm) = Some HIGH
   \<and> snd (createCheckIn asciiLower example_db example_calm)
       \<noteq> Inl (Error ''Cannot create alert for non-high/critical risk level'')
   \<and> snd (createAlert example_db 0 HIGH)
       \<noteq> Inl (Error ''Cannot create alert for non-high/critical risk level'')"
  using alert_error_unreachable
      [where unicodeLower = asciiLower and db = example_db and input = example_calm and i = 0
         and level = HIGH]
  by (simp add: persisted_calm shouldTriggerAlert_def)

subsection \<open>The stored critical factors\<close>

text \<open>
  C10. If the notes of a check-in are not blank and include at least one critical
  indicator of the farmer's language, then \<open>createCheckIn\<close> succeeds and the critical
  factors of the row, as returned and as stored, are the serialisation of: the factors of
  the structured assessment, then the tag \<^verbatim>\<open>crisis_keywords_detected\<close>, then every matched
  phrase itself in the order of the table, then \<^verbatim>\<open>very_low_hope\<close> if the hope level is at
  most 2. A phrase is matched when the lowered notes include it, lowered; this holds
  for every lowering \<open>unicodeLower\<close> of the texts outside ASCII and Devanagari, so for the
  one of the engine. The second instance below is the text with the Kelvin sign: both
  \<^verbatim>\<open>kill myself\<close> and \<^verbatim>\<open>poison\<close> are stored, in the order of the table.
\<close>

theorem crisis_phrases_persisted:
  assumes "notes' input = Some n"
    and "n \<noteq> [] \<and> length (trim n) > 0"
    and "wordsOf CRITICAL_INDICATORS (effectiveLang db) = Inr criticalWords"
    and "filter (\<lambda>word. includes_str (toLowerCase unicodeLower n) (toLowerCase unicodeLower word)) criticalWords \<noteq> []"
  shows "\<exists>row response.
           snd (createCheckIn unicodeLower db input) = Inr (row, response)
           \<and> row_criticalFactors row =
               JSON_stringify
                 (criticalFactors (assessRisk input)
                  @ [str ''crisis_keywords_detected'']
                  @ filter (\<lambda>word. includes_str (toLowerCase unicodeLower n) (toLowerCase unicodeLower word))
                      criticalWords
                  @ (if hopeLevel input \<le> 2 then [str ''very_low_hope''] else []))
           \<and> map_option row_criticalFactors (persisted unicodeLower db input)
               = Some (row_criticalFactors row)"
proof -
  from assms(3) have w: "wordsOf CRITICAL_INDICATORS
      (if effectiveLang db = [] then str ''mr'' else effectiveLang db) = Inr criticalWords"
    by (simp only: effectiveLang_again)
  from assms(4) have f: "foundWords unicodeLower (toLowerCase unicodeLower n) criticalWords \<noteq> []"
    by (simp add: foundWords_def)
  from analyzeRisk_crisis [OF assms(2) w f, where h = "hopeLevel input"] assms(1)
  have ai: "analyzeRiskFromCheckIn unicodeLower (hopeLevel input) (notes' input) (effectiveLang db) =
           Inr \<lparr>additionalRiskScore = 40 + (if hopeLevel input \<le> 2 then 15 else 0),
                indicators = str ''crisis_keywords_detected''
                  # foundWords unicodeLower (toLowerCase unicodeLower n) criticalWords
                  @ (if hopeLevel input \<le> 2 then [str ''very_low_hope''] else [])\<rparr>"
    by simp
  show ?thesis
    by (simp add: createCheckIn_Inr(1) [OF ai] persisted_Inr [OF ai] combine_fields(4)
        foundWords_def)
qed

theorem crisis_phrases_persisted_witness:
  "notes' example_calm = Some (str ''poison'')
   \<and> (str ''poison'' \<noteq> [] \<and> length (trim (str ''poison'')) > 0)
   \<and> wordsOf CRITICAL_INDICATORS (effectiveLang example_db) = Inr CRITICAL_INDICATORS_en
   \<and> filter (\<lambda>word. includes_str (toLowerCase asciiLower (str ''poison''))
                        (toLowerCase asciiLower word))
        CRITICAL_INDICATORS_en = [str ''poison'']
   \<and> map_option row_criticalFactors (persisted asciiLower example_db example_calm)
       = Some (JSON_stringify [str ''crisis_keywords_detected'', str ''poison''])
   \<and> notes' example_kelvin = Some (str ''poison '' @ [0x212A] @ str ''ill myself'')
   \<and> toLowerCase kelvinLower (str ''poison '' @ [0x212A] @ str ''ill myself'')
       = str ''poison kill myself''
   \<and> filter (\<lambda>word. includes_str
                          (toLowerCase kelvinLower (str ''poison '' @ [0x212A] @ str ''ill myself''))
                          (toLowerCase kelvinLower word))
        CRITICAL_INDICATORS_en = [str ''kill myself'', str ''poison'']
   \<and> map_option row_criticalFactors (persisted kelvinLower example_db example_kelvin)
       = Some (JSON_stringify
                 [str ''crisis_keywords_detected'', str ''kill myself'', str ''poison''])"
proof -
  have h1: "notes' example_calm = Some (str ''poison'')"
    by (simp add: example_calm_def)
  have lang: "effectiveLang example_db = str ''en''"
    by (simp add: effectiveLang_def example_db_def str_def)
  have h3: "wordsOf CRITICAL_INDICATORS (effectiveLang example_db) = Inr CRITICAL_INDICATORS_en"
    using poison_facts(2) by (simp add: lang effectiveLang_again [of example_db, unfolded lang])
  have f: "filter (\<lambda>word. includes_str (toLowerCase asciiLower (str ''poison''))
                        (toLowerCase asciiLower word))
        CRITICAL_INDICATORS_en = [str ''poison'']"
    using poison_facts(3) [where unicodeLower = asciiLower] by (simp add: foundWords_def)
  then have h4: "filter (\<lambda>word. includes_str (toLowerCase asciiLower (str ''poison''))
                        (toLowerCase asciiLower word))
        CRITICAL_INDICATORS_en \<noteq> []"
    by simp
  have hl: "\<not> hopeLevel example_calm \<le> 2"
    by (simp add: example_calm_def)
  have k1: "notes' example_kelvin = Some (str ''poison '' @ [0x212A] @ str ''ill myself'')"
    by (simp add: example_kelvin_def)
  have k2: "str ''poison '' @ [0x212A] @ str ''ill myself'' \<noteq> []
            \<and> length (trim (str ''poison '' @ [0x212A] @ str ''ill myself'')) > 0"
    by (simp add: str_def trim_def isWhiteSpace_def)
  have kl: "toLowerCase kelvinLower (str ''poison '' @ [0x212A] @ str ''ill myself'')
       = str ''poison kill myself''"
    by (simp add: toLowerCase_def plainUnit_def asciiLower_def kelvinLower_def str_def)
  have kf: "filter (\<lambda>word. includes_str
                          (toLowerCase kelvinLower (str ''poison '' @ [0x212A] @ str ''ill myself''))
                          (toLowerCase kelvinLower word))
        CRITICAL_INDICATORS_en = [str ''kill myself'', str ''poison'']"
    unfolding kl
    by (simp add: toLowerCase_def plainUnit_def asciiLower_def str_def
        CRITICAL_INDICATORS_en_def)
  then have k4: "filter (\<lambda>word. includes_str
                          (toLowerCase kelvinLower (str ''poison '' @ [0x212A] @ str ''ill myself''))
                          (toLowerCase kelvinLower word))
        CRITICAL_INDICATORS_en \<noteq> []"
    by simp
  have kh: "\<not> hopeLevel example_kelvin \<le> 2"
    "criticalFactors (assessRisk example_kelvin) = []"
    by (simp_all add: example_kelvin_def assessRisk_def Let_def identifyCriticalFactors_def)
  from crisis_phrases_persisted [OF h1 poison_facts(1) h3 h4] h1 poison_facts(1) h3 f
  have first: "map_option row_criticalFactors (persisted asciiLower example_db example_calm)
       = Some (JSON_stringify [str ''crisis_keywords_detected'', str ''poison''])"
    by (auto simp: hl assessRisk_calm(3))
  from crisis_phrases_persisted [OF k1 k2 h3 k4] kf
  have second: "map_option row_criticalFactors (persisted kelvinLower example_db example_kelvin)
       = Some (JSON_stringify
                 [str ''crisis_keywords_detected'', str ''kill myself'', str ''poison''])"
    by (auto simp: kh)
  from h1 poison_facts(1) h3 f first k1 kl kf second show ?thesis by blast
qed

end
